theory Spec2Isabelle
  imports Main
begin

section \<open>Go library functions used by the interceptors\<close>

text \<open>\<^verbatim>\<open>strings.HasPrefix(s, prefix)\<close>: \<^verbatim>\<open>len(s) >= len(prefix) && s[0:len(prefix)] == prefix\<close>.\<close>

definition HasPrefix :: "string \<Rightarrow> string \<Rightarrow> bool" where
  "HasPrefix s p = (length p \<le> length s \<and> take (length p) s = p)"

text \<open>\<^verbatim>\<open>strconv.Itoa\<close>: the decimal form of an integer, with a leading minus sign when negative.\<close>

definition digit :: "nat \<Rightarrow> char" where
  "digit n = ''0123456789'' ! (n mod 10)"

function FormatUint :: "nat \<Rightarrow> string" where
  "FormatUint n = (if n < 10 then [digit n] else FormatUint (n div 10) @ [digit n])"
  by pat_completeness auto
termination
  by (relation "measure id") auto

declare FormatUint.simps [simp del]

definition Itoa :: "int \<Rightarrow> string" where
  "Itoa i = (if i < 0 then CHR ''-'' # FormatUint (nat (- i)) else FormatUint (nat i))"

section \<open>Telemetry objects carried by a request context\<close>

text \<open>
  The interface values of the external libraries are modelled by the constructor calls that
  build them; a value built elsewhere is an opaque handle. A nil interface value or a nil
  pointer is \<open>None\<close> of the corresponding option type.
\<close>

datatype Event = NoopEvent | EventRef nat

datatype Logger = NoopLogger | LoggerRef nat

datatype Span = NoopSpan | SpanRef nat

datatype SpanExporter = NoopExporter | OtherExporter nat

datatype SpanProcessor = NewBatchSpanProcessor SpanExporter | OtherProcessor nat

datatype Sampler = AlwaysSample

datatype TracerProviderOption =
    WithSampler Sampler
  | WithSpanProcessor_sdk SpanProcessor
  | WithResource "(string \<times> string) list"

datatype TracerProvider =
    NewTracerProvider "TracerProviderOption list"
  | NoopTracerProvider
  | OtherProvider nat

datatype Tracer = ProviderTracer TracerProvider string string | NoopTracer

datatype TextMapPropagator =
    TraceContext
  | Baggage
  | NewCompositeTextMapPropagator "TextMapPropagator list"
  | OtherPropagator nat

section \<open>The gin request context\<close>

datatype ctxValue =
    NilValue
  | StringValue string
  | EventValue Event
  | LoggerValue Logger
  | SpanValue Span
  | TracerValue Tracer
  | TracerProviderValue TracerProvider
  | PropagatorValue TextMapPropagator
  | OtherValue nat

record URL =
  Path :: string

record Request =
  Method :: string
  URL :: "URL option"
  RequestURI :: string

record ResponseWriter =
  Status :: int
  Header :: "string \<rightharpoonup> string list"

record ginContext =
  Request :: "Request option"
  Writer :: "ResponseWriter option"
  Keys :: "string \<rightharpoonup> ctxValue"
  Errors :: "string list"

text \<open>
  \<^verbatim>\<open>ctx.GetString(key)\<close> of gin: the value stored under the key when it is a string,
  the empty string when the key is absent, nil, or holds a value of another type.
\<close>

definition GetString :: "ginContext \<Rightarrow> string \<Rightarrow> string" where
  "GetString c key = (case Keys c key of Some (StringValue s) \<Rightarrow> s | _ \<Rightarrow> '''')"

section \<open>Panic values and outcomes of a handler\<close>

text \<open>
  A structured error response of rk-common is modelled by the call that built it:
  \<^verbatim>\<open>rkerror.FromError(err)\<close>, \<^verbatim>\<open>rkerror.New(opts...)\<close>, or a response built elsewhere.
  \<open>Err r\<close> is the field \<^verbatim>\<open>r.Err\<close> of a response.
\<close>

datatype goError = RuntimeError string | PlainError string

datatype ErrorOption = WithMessage string

datatype ErrorResp = FromError goError | New "ErrorOption list" | OtherErrorResp nat

datatype RkErr = Err ErrorResp

text \<open>
  The value \<^verbatim>\<open>recover()\<close> returns after a panic, by its dynamic type: a
  \<^verbatim>\<open>*rkerror.ErrorResp\<close> (a pointer, \<open>None\<close> when it is the nil pointer), a value of
  another type that implements \<^verbatim>\<open>error\<close>, or any other value, given by its \<^verbatim>\<open>%v\<close>
  form. A panic value is a non-nil interface value.
\<close>

datatype panicValue =
    ErrorRespPointer "ErrorResp option"
  | ErrorValue goError
  | AnyValue string

text \<open>A handler either returns or panics; the state it leaves behind stays in both cases.\<close>

datatype 'w outcome = Returned 'w | Panicked panicValue 'w

text \<open>The calls made on the event, on the logger and on the response, in the order made.\<close>

datatype effect =
    SetCounter Event string int
  | AddErr Event RkErr
  | LogError Logger string RkErr
  | JSON int ErrorResp

section \<open>Process-wide values and the state of the process\<close>

definition DefaultLabelKeys :: "string list" where
  "DefaultLabelKeys =
     [''entryName'', ''entryType'', ''realm'', ''region'', ''az'', ''domain'', ''instance'',
      ''appVersion'', ''appName'', ''restMethod'', ''restPath'', ''type'', ''resCode'']"

definition ElapsedNano :: string where "ElapsedNano = ''elapsedNano''"
definition Errors_name :: string where "Errors_name = ''errors''" \<comment> \<open>the constant \<^verbatim>\<open>Errors\<close>\<close>
definition ResCode :: string where "ResCode = ''resCode''"
definition unknown :: string where "unknown = ''unknown''"

text \<open>
  Values the packages read and that are declared outside the files at hand: the default
  entry names and types and the context keys of packages rkginbasic and rkgininter, the
  header keys of package rkginctx, the default Prometheus registerer, the application info
  entry, the deployment facts and the version string of the OpenTelemetry contrib module.
\<close>

type_synonym Registerer = nat

record globals =
  RkEntryNameValue :: string
  RkEntryTypeValue :: string
  RkEntryNameKey :: string
  RpcEntryNameValue :: string
  RpcEntryTypeValue :: string
  RpcEntryNameKey :: string
  RpcEventKey :: string
  RpcLoggerKey :: string
  RpcSpanKey :: string
  RpcTracerKey :: string
  RpcTracerProviderKey :: string
  RpcPropagatorKey :: string
  RequestIdKey :: string
  TraceIdKey :: string
  DefaultRegisterer :: Registerer
  AppName :: string
  Version :: string
  Realm :: string
  Region :: string
  AZ :: string
  Domain :: string
  LocalHostname :: string
  SemVersion :: string

text \<open>
  A metrics set of rk-prom, by its interface: the namespace, subsystem and registerer it was
  created with, the summary and counter vectors registered in it (name and label keys), and
  the samples its instruments have received, oldest first. The value observed by a summary
  is kept as the integer number of nanoseconds.
\<close>

datatype sample = Observed string "string list" int | Incremented string "string list"

record MetricsSet =
  namespace :: string
  subSystem :: string
  registerer :: Registerer
  summaries :: "(string \<times> string list) list"
  counters :: "(string \<times> string list) list"
  samples :: "sample list"

record optionSet =
  EntryName :: string
  EntryType :: string
  Registerer :: "Registerer option"
  MetricsSet :: "nat option"

text \<open>
  The state: the \<^verbatim>\<open>optionsMap\<close> of package rkginmetrics, the metrics sets allocated so
  far (a \<^verbatim>\<open>*rkprom.MetricsSet\<close> is an index into \<open>heap\<close>), the request context in
  flight, the clock read by \<^verbatim>\<open>time.Now()\<close> in nanoseconds, the calls made so far on
  event, logger and response, and the text \<^verbatim>\<open>debug.Stack()\<close> returns.
\<close>

record world =
  optionsMap :: "string \<rightharpoonup> optionSet"
  heap :: "MetricsSet list"
  ctx :: ginContext
  now :: int
  effects :: "effect list"
  stack :: string

section \<open>Package rkginctx: the request-context getters\<close>

text \<open>
  The file of the getters (context.go of package rkginctx) is not among the sources; its
  test file is. Each getter below is modelled from the contract of the request context
  carrier in the spec: it returns the value stored under its key, and a default when the
  context is nil or the key is absent (also when the key holds a value of another type).
  The defaults are the ones the tests of the package assert.
\<close>

text \<open>Modelled from the spec: \<^verbatim>\<open>GetEvent\<close>; the default is the no-op event (TestGetEvent).\<close>

definition GetEvent :: "globals \<Rightarrow> ginContext option \<Rightarrow> Event" where
  "GetEvent g c =
     (case c of None \<Rightarrow> NoopEvent
      | Some cx \<Rightarrow> (case Keys cx (RpcEventKey g) of Some (EventValue e) \<Rightarrow> e | _ \<Rightarrow> NoopEvent))"

text \<open>Modelled from the spec: \<^verbatim>\<open>GetLogger\<close>; the default is the no-op logger (TestGetLogger).\<close>

definition GetLogger :: "globals \<Rightarrow> ginContext option \<Rightarrow> Logger" where
  "GetLogger g c =
     (case c of None \<Rightarrow> NoopLogger
      | Some cx \<Rightarrow> (case Keys cx (RpcLoggerKey g) of Some (LoggerValue l) \<Rightarrow> l | _ \<Rightarrow> NoopLogger))"

text \<open>\<^verbatim>\<open>http.Header.Get\<close>: the first value stored under the key, or the empty string.\<close>

definition HeaderGet :: "(string \<rightharpoonup> string list) \<Rightarrow> string \<Rightarrow> string" where
  "HeaderGet h key = (case h key of Some (v # _) \<Rightarrow> v | _ \<Rightarrow> [])"

text \<open>
  Modelled from the spec: \<^verbatim>\<open>GetRequestId\<close> reads the request id from the headers of the
  response writer; the default is the empty string (TestGetRequestId).
\<close>

definition GetRequestId :: "globals \<Rightarrow> ginContext option \<Rightarrow> string" where
  "GetRequestId g c =
     (case c of None \<Rightarrow> []
      | Some cx \<Rightarrow> (case Writer cx of None \<Rightarrow> [] | Some wr \<Rightarrow> HeaderGet (Header wr) (RequestIdKey g)))"

text \<open>
  Modelled from the spec: \<^verbatim>\<open>GetTraceId\<close> reads the trace id from the headers of the
  response writer; the default is the empty string (TestGetTraceId).
\<close>

definition GetTraceId :: "globals \<Rightarrow> ginContext option \<Rightarrow> string" where
  "GetTraceId g c =
     (case c of None \<Rightarrow> []
      | Some cx \<Rightarrow> (case Writer cx of None \<Rightarrow> [] | Some wr \<Rightarrow> HeaderGet (Header wr) (TraceIdKey g)))"

text \<open>Modelled from the spec: \<^verbatim>\<open>GetEntryName\<close>; the default is the empty string (TestGetEntryName).\<close>

definition GetEntryName :: "globals \<Rightarrow> ginContext option \<Rightarrow> string" where
  "GetEntryName g c =
     (case c of None \<Rightarrow> [] | Some cx \<Rightarrow> GetString cx (RpcEntryNameKey g))"

text \<open>Modelled from the spec: \<^verbatim>\<open>GetTraceSpan\<close>; the default is a non-nil no-op span (TestGetTraceSpan).\<close>

definition GetTraceSpan :: "globals \<Rightarrow> ginContext option \<Rightarrow> Span option" where
  "GetTraceSpan g c =
     (case c of None \<Rightarrow> Some NoopSpan
      | Some cx \<Rightarrow> (case Keys cx (RpcSpanKey g) of Some (SpanValue s) \<Rightarrow> Some s | _ \<Rightarrow> Some NoopSpan))"

text \<open>Modelled from the spec: \<^verbatim>\<open>GetTracer\<close>; the default is a non-nil no-op tracer (TestGetTracer).\<close>

definition GetTracer :: "globals \<Rightarrow> ginContext option \<Rightarrow> Tracer option" where
  "GetTracer g c =
     (case c of None \<Rightarrow> Some NoopTracer
      | Some cx \<Rightarrow> (case Keys cx (RpcTracerKey g) of Some (TracerValue t) \<Rightarrow> Some t | _ \<Rightarrow> Some NoopTracer))"

text \<open>
  Modelled from the spec: \<^verbatim>\<open>GetTracerProvider\<close>; the default is a non-nil no-op provider
  (TestGetTracerProvider).
\<close>

definition GetTracerProvider :: "globals \<Rightarrow> ginContext option \<Rightarrow> TracerProvider option" where
  "GetTracerProvider g c =
     (case c of None \<Rightarrow> Some NoopTracerProvider
      | Some cx \<Rightarrow>
         (case Keys cx (RpcTracerProviderKey g) of Some (TracerProviderValue p) \<Rightarrow> Some p
          | _ \<Rightarrow> Some NoopTracerProvider))"

text \<open>
  Modelled from the spec: \<^verbatim>\<open>GetTracerPropagator\<close>; the spec asks for a non-nil no-op
  propagator, but \<^verbatim>\<open>TestGetTracerPropagator\<close> asserts \<^verbatim>\<open>assert.Nil\<close> for the nil context and
  for a context without the key, so the default is nil.
\<close>

definition GetTracerPropagator :: "globals \<Rightarrow> ginContext option \<Rightarrow> TextMapPropagator option" where
  "GetTracerPropagator g c =
     (case c of None \<Rightarrow> None
      | Some cx \<Rightarrow> (case Keys cx (RpcPropagatorKey g) of Some (PropagatorValue p) \<Rightarrow> Some p | _ \<Rightarrow> None))"

section \<open>Package rkginmetrics: the Prometheus metrics interceptor\<close>

subsection \<open>The interface of rk-prom\<close>

text \<open>
  rk-prom is an external library. A new metrics set has no instrument; registering a
  vector under a name already in use changes nothing (the error is dropped by the caller);
  the quantile objectives of a summary are not modelled. A lookup returns nil when the name
  is not registered or when the number of label values is not the number of label keys.
\<close>

definition NewMetricsSet :: "string \<Rightarrow> string \<Rightarrow> Registerer \<Rightarrow> MetricsSet" where
  "NewMetricsSet ns sub reg =
     \<lparr>namespace = ns, subSystem = sub, registerer = reg,
      summaries = [], counters = [], samples = []\<rparr>"

definition containsKey :: "MetricsSet \<Rightarrow> string \<Rightarrow> bool" where
  "containsKey m name = (name \<in> set (map fst (summaries m @ counters m)))"

definition RegisterSummary :: "string \<Rightarrow> string list \<Rightarrow> MetricsSet \<Rightarrow> MetricsSet" where
  "RegisterSummary name keys m =
     (if containsKey m name then m else m\<lparr>summaries := summaries m @ [(name, keys)]\<rparr>)"

definition RegisterCounter :: "string \<Rightarrow> string list \<Rightarrow> MetricsSet \<Rightarrow> MetricsSet" where
  "RegisterCounter name keys m =
     (if containsKey m name then m else m\<lparr>counters := counters m @ [(name, keys)]\<rparr>)"

text \<open>
  An instrument handed out by a metrics set: the address of the set, the name of the vector
  and the label values that select the child.
\<close>

datatype Observer = Observer nat string "string list"

datatype Counter = Counter nat string "string list"

definition GetSummaryWithValues :: "world \<Rightarrow> nat \<Rightarrow> string \<Rightarrow> string list \<Rightarrow> Observer option" where
  "GetSummaryWithValues w a name values =
     (if a < length (heap w) then
        (case map_of (summaries (heap w ! a)) name of
           None \<Rightarrow> None
         | Some keys \<Rightarrow> if length keys = length values then Some (Observer a name values) else None)
      else None)"

definition GetCounterWithValues :: "world \<Rightarrow> nat \<Rightarrow> string \<Rightarrow> string list \<Rightarrow> Counter option" where
  "GetCounterWithValues w a name values =
     (if a < length (heap w) then
        (case map_of (counters (heap w ! a)) name of
           None \<Rightarrow> None
         | Some keys \<Rightarrow> if length keys = length values then Some (Counter a name values) else None)
      else None)"

text \<open>Observing on a summary child or incrementing a counter child adds a sample to its set.\<close>

definition record_sample :: "nat \<Rightarrow> sample \<Rightarrow> world \<Rightarrow> world" where
  "record_sample a s w =
     (if a < length (heap w)
      then w\<lparr>heap := (heap w)[a := (heap w ! a)\<lparr>samples := samples (heap w ! a) @ [s]\<rparr>]\<rparr>
      else w)"

fun Observe :: "Observer \<Rightarrow> int \<Rightarrow> world \<Rightarrow> world" where
  "Observe (Observer a name values) v w = record_sample a (Observed name values v) w"

fun Inc :: "Counter \<Rightarrow> world \<Rightarrow> world" where
  "Inc (Counter a name values) w = record_sample a (Incremented name values) w"

subsection \<open>Options and the registry\<close>

text \<open>The two option constructors of the package, and what the function each returns does.\<close>

datatype Option = WithEntryNameAndType string string | WithRegisterer "Registerer option"

fun applyOption :: "Option \<Rightarrow> optionSet \<Rightarrow> optionSet" where
  "applyOption (WithEntryNameAndType entryName entryType) opt =
     (let opt1 = (if length entryName > 0 then opt\<lparr>EntryName := entryName\<rparr> else opt)
      in (if length entryType > 0 then opt1\<lparr>EntryType := entryType\<rparr> else opt1))"
| "applyOption (WithRegisterer r) opt =
     (case r of Some reg \<Rightarrow> opt\<lparr>Registerer := Some reg\<rparr> | None \<Rightarrow> opt)"

definition GetOptionSet :: "globals \<Rightarrow> world \<Rightarrow> ginContext option \<Rightarrow> optionSet option" where
  "GetOptionSet g w c =
     (case c of None \<Rightarrow> None
      | Some cx \<Rightarrow> optionsMap w (GetString cx (RkEntryNameKey g)))"

definition GetServerMetricsSet :: "globals \<Rightarrow> world \<Rightarrow> ginContext option \<Rightarrow> nat option" where
  "GetServerMetricsSet g w c =
     (case GetOptionSet g w c of Some s \<Rightarrow> MetricsSet s | None \<Rightarrow> None)"

text \<open>
  \<^verbatim>\<open>getValues\<close>: the five label values start as \<open>unknown\<close>; method, path and response
  code are read from the request and the writer, entry name and type from the option set.
\<close>

definition getValues :: "globals \<Rightarrow> world \<Rightarrow> ginContext option \<Rightarrow> string list" where
  "getValues g w c =
     (let (method, path, resCode) =
            (case c of None \<Rightarrow> (unknown, unknown, unknown)
             | Some cx \<Rightarrow>
                (case Request cx of None \<Rightarrow> (unknown, unknown, unknown)
                 | Some r \<Rightarrow>
                    (Method r,
                     (case URL r of None \<Rightarrow> unknown | Some u \<Rightarrow> Path u),
                     (case Writer cx of None \<Rightarrow> unknown | Some wr \<Rightarrow> Itoa (Status wr)))));
          (entryName, entryType) =
            (case GetOptionSet g w c of None \<Rightarrow> (unknown, unknown)
             | Some s \<Rightarrow> (EntryName s, EntryType s))
      in [entryName, entryType, Realm g, Region g, AZ g, Domain g, LocalHostname g,
          Version g, AppName g, method, path, ''ginServer'', resCode])"

definition GetServerDurationMetrics :: "globals \<Rightarrow> world \<Rightarrow> ginContext option \<Rightarrow> Observer option" where
  "GetServerDurationMetrics g w c =
     (case GetServerMetricsSet g w c of
        Some a \<Rightarrow> GetSummaryWithValues w a ElapsedNano (getValues g w c)
      | None \<Rightarrow> None)"

definition GetServerErrorMetrics :: "globals \<Rightarrow> world \<Rightarrow> ginContext option \<Rightarrow> Counter option" where
  "GetServerErrorMetrics g w c =
     (case c of None \<Rightarrow> None
      | Some _ \<Rightarrow>
         (case GetServerMetricsSet g w c of
            Some a \<Rightarrow> GetCounterWithValues w a Errors_name (getValues g w c)
          | None \<Rightarrow> None))"

definition GetServerResCodeMetrics :: "globals \<Rightarrow> world \<Rightarrow> ginContext option \<Rightarrow> Counter option" where
  "GetServerResCodeMetrics g w c =
     (case c of None \<Rightarrow> None
      | Some _ \<Rightarrow>
         (case GetServerMetricsSet g w c of
            Some a \<Rightarrow> GetCounterWithValues w a ResCode (getValues g w c)
          | None \<Rightarrow> None))"

text \<open>\<^verbatim>\<open>initMetrics\<close> registers the three vectors in the metrics set the option set points to.\<close>

definition initMetrics :: "optionSet \<Rightarrow> world \<Rightarrow> world" where
  "initMetrics opts w =
     (case MetricsSet opts of None \<Rightarrow> w
      | Some a \<Rightarrow>
         if a < length (heap w)
         then w\<lparr>heap := (heap w)[a :=
                  RegisterCounter ResCode DefaultLabelKeys
                    (RegisterCounter Errors_name DefaultLabelKeys
                      (RegisterSummary ElapsedNano DefaultLabelKeys (heap w ! a)))]\<rparr>
         else w)"

subsection \<open>The handler and its factory\<close>

text \<open>
  The closure \<^verbatim>\<open>MetricsPromInterceptor\<close> returns is \<open>handler\<close>; \<open>next\<close> stands for
  \<^verbatim>\<open>ctx.Next()\<close>, the rest of the chain, which may change the whole state and may panic.
  \<open>excluded\<close> is the negation of the condition under which the closure observes, and
  \<open>observe_all\<close> is the body of that conditional. Reading
  \<^verbatim>\<open>ctx.Request.RequestURI\<close> panics when the request is nil.
\<close>

definition excluded :: "string \<Rightarrow> bool" where
  "excluded uri =
     (\<not> (\<not> HasPrefix uri ''/rk/v1/assets'' \<and> \<not> HasPrefix uri ''/rk/v1/tv'' \<and> \<not> HasPrefix uri ''/sw/''))"

definition nilDereference :: panicValue where
  "nilDereference = ErrorValue (RuntimeError ''invalid memory address or nil pointer dereference'')"

definition observe_all :: "globals \<Rightarrow> int \<Rightarrow> world \<Rightarrow> world" where
  "observe_all g elapsed w =
     (let c = Some (ctx w);
          w1 = (case GetServerDurationMetrics g w c of
                  Some durationMetrics \<Rightarrow> Observe durationMetrics elapsed w
                | None \<Rightarrow> w);
          w2 = (if length (Errors (ctx w1)) > 0
                then (case GetServerErrorMetrics g w1 c of
                        Some errorMetrics \<Rightarrow> Inc errorMetrics w1
                      | None \<Rightarrow> w1)
                else w1)
      in (case GetServerResCodeMetrics g w2 c of
            Some resCodeMetrics \<Rightarrow> Inc resCodeMetrics w2
          | None \<Rightarrow> w2))"

definition handler :: "globals \<Rightarrow> (world \<Rightarrow> world outcome) \<Rightarrow> world \<Rightarrow> world outcome" where
  "handler g next w =
     (let startTime = now w
      in (case next w of
            Panicked p w1 \<Rightarrow> Panicked p w1
          | Returned w1 \<Rightarrow>
             (let elapsed = now w1 - startTime
              in (case Request (ctx w1) of
                    None \<Rightarrow> Panicked nilDereference w1
                  | Some r \<Rightarrow>
                     if \<not> excluded (RequestURI r) then Returned (observe_all g elapsed w1)
                     else Returned w1))))"

text \<open>
  \<^verbatim>\<open>MetricsPromInterceptor\<close>: \<open>newSet\<close> is its first part, which builds the option set
  from the defaults and the options and creates the metrics set; the second part registers
  the set when its entry name is not in \<^verbatim>\<open>optionsMap\<close> yet. The closure does not refer
  to the set.
\<close>

definition alloc :: "MetricsSet \<Rightarrow> world \<Rightarrow> nat \<times> world" where
  "alloc m w = (length (heap w), w\<lparr>heap := heap w @ [m]\<rparr>)"

definition newSet :: "globals \<Rightarrow> Option list \<Rightarrow> world \<Rightarrow> optionSet \<times> world" where
  "newSet g opts w =
     (let set0 = \<lparr>EntryName = RkEntryNameValue g, EntryType = RkEntryTypeValue g,
                  Registerer = Some (DefaultRegisterer g), MetricsSet = None\<rparr>;
          set1 = fold applyOption opts set0
      in if length (EntryName set1) > 0 \<and> Registerer set1 \<noteq> None then
           (let (a, w1) = alloc (NewMetricsSet (AppName g) (EntryName set1) (the (Registerer set1))) w
            in (set1\<lparr>MetricsSet := Some a\<rparr>, w1))
         else
           (let set2 = set1\<lparr>EntryName := RkEntryNameValue g,
                           Registerer := Some (DefaultRegisterer g)\<rparr>;
                (a, w1) = alloc (NewMetricsSet (AppName g) (EntryName set2) (DefaultRegisterer g)) w
            in (set2\<lparr>MetricsSet := Some a\<rparr>, w1)))"

definition MetricsPromInterceptor ::
  "globals \<Rightarrow> Option list \<Rightarrow> world \<Rightarrow> ((world \<Rightarrow> world outcome) \<Rightarrow> world \<Rightarrow> world outcome) \<times> world" where
  "MetricsPromInterceptor g opts w =
     (let (set2, w1) = newSet g opts w;
          w2 = (case optionsMap w1 (EntryName set2) of
                  None \<Rightarrow> initMetrics set2 (w1\<lparr>optionsMap := (optionsMap w1)(EntryName set2 \<mapsto> set2)\<rparr>)
                | Some _ \<Rightarrow> w1)
      in (handler g, w2))"

section \<open>Package rkgintrace: the option set of the tracing interceptor\<close>

text \<open>
  \<^verbatim>\<open>newOptionSet\<close> works on the \<^verbatim>\<open>optionsMap\<close> of package rkgintrace, passed and
  returned explicitly. The names \<open>optionSet_trace\<close>, \<open>EntryName_trace\<close>,
  \<open>EntryType_trace\<close>, \<open>Option_trace\<close> and \<open>WithEntryNameAndType_trace\<close> stand for
  the package's \<^verbatim>\<open>optionSet\<close>, \<^verbatim>\<open>EntryName\<close>, \<^verbatim>\<open>EntryType\<close>, \<^verbatim>\<open>Option\<close> and
  \<^verbatim>\<open>WithEntryNameAndType\<close>, which package rkginmetrics declares too.
\<close>

definition CreateNoopExporter :: SpanExporter where
  "CreateNoopExporter = NoopExporter"

record optionSet_trace =
  EntryName_trace :: string
  EntryType_trace :: string
  Exporter :: "SpanExporter option"
  Processor :: "SpanProcessor option"
  Provider :: "TracerProvider option"
  Propagator :: "TextMapPropagator option"
  Tracer :: "Tracer option"

datatype Option_trace =
    WithExporter "SpanExporter option"
  | WithSpanProcessor "SpanProcessor option"
  | WithTracerProvider "TracerProvider option"
  | WithPropagator "TextMapPropagator option"
  | WithEntryNameAndType_trace string string

fun applyOption_trace :: "Option_trace \<Rightarrow> optionSet_trace \<Rightarrow> optionSet_trace" where
  "applyOption_trace (WithExporter exporter) opt =
     (case exporter of Some e \<Rightarrow> opt\<lparr>Exporter := Some e\<rparr> | None \<Rightarrow> opt)"
| "applyOption_trace (WithSpanProcessor processor) opt =
     (case processor of Some p \<Rightarrow> opt\<lparr>Processor := Some p\<rparr> | None \<Rightarrow> opt)"
| "applyOption_trace (WithTracerProvider provider) opt =
     (case provider of Some p \<Rightarrow> opt\<lparr>Provider := Some p\<rparr> | None \<Rightarrow> opt)"
| "applyOption_trace (WithPropagator propagator) opt =
     (case propagator of Some p \<Rightarrow> opt\<lparr>Propagator := Some p\<rparr> | None \<Rightarrow> opt)"
| "applyOption_trace (WithEntryNameAndType_trace entryName entryType) opt =
     opt\<lparr>EntryName_trace := entryName, EntryType_trace := entryType\<rparr>"

definition newOptionSet ::
  "globals \<Rightarrow> Option_trace list \<Rightarrow> (string \<rightharpoonup> optionSet_trace)
     \<Rightarrow> optionSet_trace \<times> (string \<rightharpoonup> optionSet_trace)" where
  "newOptionSet g opts om =
     (let set0 = \<lparr>EntryName_trace = RpcEntryNameValue g, EntryType_trace = RpcEntryTypeValue g,
                  Exporter = None, Processor = None, Provider = None, Propagator = None,
                  Tracer = None\<rparr>;
          set1 = fold applyOption_trace opts set0;
          exporter = (case Exporter set1 of None \<Rightarrow> CreateNoopExporter | Some e \<Rightarrow> e);
          processor = (case Processor set1 of None \<Rightarrow> NewBatchSpanProcessor exporter | Some p \<Rightarrow> p);
          provider =
            (case Provider set1 of
               None \<Rightarrow>
                 NewTracerProvider
                   [WithSampler AlwaysSample,
                    WithSpanProcessor_sdk processor,
                    WithResource
                      [(''service.name'', AppName g),
                       (''service.version'', Version g),
                       (''service.entryName'', EntryName_trace set1),
                       (''service.entryType'', EntryType_trace set1)]]
             | Some p \<Rightarrow> p);
          tracer = ProviderTracer provider (EntryName_trace set1) (SemVersion g);
          propagator =
            (case Propagator set1 of
               None \<Rightarrow> NewCompositeTextMapPropagator [TraceContext, Baggage]
             | Some p \<Rightarrow> p);
          set2 = set1\<lparr>Exporter := Some exporter, Processor := Some processor,
                      Provider := Some provider, Tracer := Some tracer,
                      Propagator := Some propagator\<rparr>
      in (set2, (case om (EntryName_trace set2) of None \<Rightarrow> om(EntryName_trace set2 \<mapsto> set2)
                 | Some _ \<Rightarrow> om)))"

section \<open>Package rkginpanic: the panic-recovery interceptor\<close>

text \<open>
  The deferred function of \<^verbatim>\<open>Interceptor\<close> is \<open>recovery\<close>, run when \<^verbatim>\<open>recover()\<close>
  returns a value; \<open>classify\<close> is its type switch. Reading \<^verbatim>\<open>res.Err\<close> panics when
  \<^verbatim>\<open>res\<close> is the nil pointer. A call on the event, the logger or the response is
  recorded in \<open>effects\<close>; what gin does inside \<^verbatim>\<open>ctx.JSON\<close> is not modelled.
\<close>

definition perform :: "effect \<Rightarrow> world \<Rightarrow> world" where
  "perform e w = w\<lparr>effects := effects w @ [e]\<rparr>"

definition classify :: "panicValue \<Rightarrow> ErrorResp option" where
  "classify recv =
     (case recv of
        ErrorRespPointer se \<Rightarrow> se
      | ErrorValue re \<Rightarrow> Some (FromError re)
      | AnyValue v \<Rightarrow> Some (New [WithMessage v]))"

definition recovery :: "globals \<Rightarrow> panicValue \<Rightarrow> world \<Rightarrow> world outcome" where
  "recovery g recv w =
     (let res = classify recv;
          c = Some (ctx w);
          w1 = perform (SetCounter (GetEvent g c) ''panic'' 1) w
      in (case res of
            None \<Rightarrow> Panicked nilDereference w1
          | Some r \<Rightarrow>
             (let w2 = perform (AddErr (GetEvent g c) (Err r)) w1;
                  w3 = perform (LogError (GetLogger g c)
                                  (''panic occurs:'' @ [CHR 0x0A] @ stack w2) (Err r)) w2
              in Returned (perform (JSON 500 r) w3))))"

definition Interceptor :: "globals \<Rightarrow> (world \<Rightarrow> world outcome) \<Rightarrow> world \<Rightarrow> world outcome" where
  "Interceptor g next w =
     (case next w of
        Returned w1 \<Rightarrow> Returned w1
      | Panicked recv w1 \<Rightarrow> recovery g recv w1)"

section \<open>Notions used to state the properties\<close>

text \<open>An observation that is made when its instrument is there, and skipped otherwise.\<close>

definition observed :: "bool \<Rightarrow> nat \<Rightarrow> sample \<Rightarrow> world \<Rightarrow> world" where
  "observed b a s w = (if b then record_sample a s w else w)"

text \<open>Several calls of the factory, one after the other; the handlers are dropped.\<close>

definition constructions :: "globals \<Rightarrow> Option list list \<Rightarrow> world \<Rightarrow> world" where
  "constructions g optss w = fold (\<lambda>opts w. snd (MetricsPromInterceptor g opts w)) optss w"

text \<open>
  A tracing option is explicit when it supplies an exporter, a processor, a provider or a
  propagator, that is, when its argument is not nil.
\<close>

fun explicit :: "Option_trace \<Rightarrow> bool" where
  "explicit (WithExporter e) = (e \<noteq> None)"
| "explicit (WithSpanProcessor p) = (p \<noteq> None)"
| "explicit (WithTracerProvider p) = (p \<noteq> None)"
| "explicit (WithPropagator p) = (p \<noteq> None)"
| "explicit (WithEntryNameAndType_trace n t) = False"

section \<open>A concrete process, for evaluating the definitions\<close>

definition demo_globals :: globals where
  "demo_globals =
     \<lparr>RkEntryNameValue = ''gin'', RkEntryTypeValue = ''gin'', RkEntryNameKey = ''ginEntryName'',
      RpcEntryNameValue = ''gin'', RpcEntryTypeValue = ''gin'', RpcEntryNameKey = ''ginEntryName'',
      RpcEventKey = ''ginEvent'', RpcLoggerKey = ''ginLogger'', RpcSpanKey = ''ginSpan'',
      RpcTracerKey = ''ginTracer'', RpcTracerProviderKey = ''ginTracerProvider'',
      RpcPropagatorKey = ''ginPropagator'', RequestIdKey = ''X-Request-Id'',
      TraceIdKey = ''X-Trace-Id'', DefaultRegisterer = 0, AppName = ''app'', Version = ''v1'',
      Realm = ''*'', Region = ''*'', AZ = ''*'', Domain = ''*'', LocalHostname = ''host'',
      SemVersion = ''0.20.0''\<rparr>"

text \<open>An empty context, as \<^verbatim>\<open>&gin.Context{}\<close>, in a process where nothing is registered.\<close>

definition demo_ctx :: ginContext where
  "demo_ctx = \<lparr>Request = None, Writer = None, Keys = Map.empty, Errors = []\<rparr>"

definition demo_world :: world where
  "demo_world =
     \<lparr>optionsMap = Map.empty, heap = [], ctx = demo_ctx, now = 0, effects = [],
      stack = ''goroutine 1''\<rparr>"

text \<open>
  A GET request of the entry \<^verbatim>\<open>svc\<close> answered with status 200, the process after the
  metrics interceptor of that entry was constructed once, and after it was constructed two
  more times under the same name; a next stage that takes 250 nanoseconds.
\<close>

definition demo_request :: "string \<Rightarrow> string list \<Rightarrow> ginContext" where
  "demo_request uri errs =
     \<lparr>Request = Some \<lparr>Method = ''GET'', URL = Some \<lparr>Path = uri\<rparr>, RequestURI = uri\<rparr>,
      Writer = Some \<lparr>Status = 200, Header = Map.empty\<rparr>,
      Keys = [''ginEntryName'' \<mapsto> StringValue ''svc''],
      Errors = errs\<rparr>"

definition demo_service :: world where
  "demo_service =
     snd (MetricsPromInterceptor demo_globals [WithEntryNameAndType ''svc'' ''rest''] demo_world)"

definition demo_service2 :: world where
  "demo_service2 =
     constructions demo_globals
       [[WithEntryNameAndType ''svc'' ''other'', WithRegisterer (Some 7)],
        [WithEntryNameAndType ''svc'' ''third'']]
       demo_service"

definition demo_next :: "world \<Rightarrow> world outcome" where
  "demo_next w = Returned (w\<lparr>now := now w + 250\<rparr>)"

text \<open>Two tracing option sets constructed under the same entry name.\<close>

definition demo_first :: "optionSet_trace \<times> (string \<rightharpoonup> optionSet_trace)" where
  "demo_first =
     newOptionSet demo_globals [WithEntryNameAndType_trace ''svc'' ''first''] Map.empty"

definition demo_second :: "optionSet_trace \<times> (string \<rightharpoonup> optionSet_trace)" where
  "demo_second =
     newOptionSet demo_globals [WithEntryNameAndType_trace ''svc'' ''second''] (snd demo_first)"

section \<open>Label values of an observation\<close>

lemma length_getValues: "length (getValues g w c) = 13"
  by (simp add: getValues_def split: prod.splits)

text \<open>
  C4: every label-value list built by \<open>getValues\<close> has exactly 13 elements, one for each
  key of \<open>DefaultLabelKeys\<close> and in that order: entry name and type first, then the
  deployment facts, then method, path, the constant server kind and the response code.
  The entry name and type are \<open>unknown\<close> when no option set is found; method, path and
  response code are \<open>unknown\<close> when the context or its request is nil; the path is
  \<open>unknown\<close> when the URL is nil and the response code when the writer is nil.
\<close>

theorem getValues_labels:
  "length (getValues g w c) = length DefaultLabelKeys \<and> length DefaultLabelKeys = 13 \<and>
   getValues g w c ! 2 = Realm g \<and> getValues g w c ! 3 = Region g \<and>
   getValues g w c ! 4 = AZ g \<and> getValues g w c ! 5 = Domain g \<and>
   getValues g w c ! 6 = LocalHostname g \<and> getValues g w c ! 7 = Version g \<and>
   getValues g w c ! 8 = AppName g \<and> getValues g w c ! 11 = ''ginServer'' \<and>
   (case GetOptionSet g w c of
      None \<Rightarrow> getValues g w c ! 0 = unknown \<and> getValues g w c ! 1 = unknown
    | Some s \<Rightarrow> getValues g w c ! 0 = EntryName s \<and> getValues g w c ! 1 = EntryType s) \<and>
   (c = None \<longrightarrow>
      getValues g w c ! 9 = unknown \<and> getValues g w c ! 10 = unknown \<and>
      getValues g w c ! 12 = unknown) \<and>
   (\<forall>cx. c = Some cx \<and> Request cx = None \<longrightarrow>
      getValues g w c ! 9 = unknown \<and> getValues g w c ! 10 = unknown \<and>
      getValues g w c ! 12 = unknown) \<and>
   (\<forall>cx r. c = Some cx \<and> Request cx = Some r \<longrightarrow>
      getValues g w c ! 9 = Method r \<and>
      getValues g w c ! 10 = (case URL r of None \<Rightarrow> unknown | Some u \<Rightarrow> Path u) \<and>
      getValues g w c ! 12 = (case Writer cx of None \<Rightarrow> unknown | Some wr \<Rightarrow> Itoa (Status wr)))"
  by (simp add: getValues_def DefaultLabelKeys_def split: option.splits)

theorem getValues_labels_witness:
  "getValues demo_globals demo_world None =
     [''unknown'', ''unknown'', ''*'', ''*'', ''*'', ''*'', ''host'', ''v1'', ''app'',
      ''unknown'', ''unknown'', ''ginServer'', ''unknown'']
   \<and> getValues demo_globals demo_world None ! 9 = unknown"
  using getValues_labels [of demo_globals demo_world None]
  by (simp add: getValues_def GetOptionSet_def demo_globals_def unknown_def)

section \<open>What an observation changes\<close>

lemma record_sample_fields [simp]:
  "optionsMap (record_sample a s w) = optionsMap w"
  "ctx (record_sample a s w) = ctx w"
  "now (record_sample a s w) = now w"
  "effects (record_sample a s w) = effects w"
  "length (heap (record_sample a s w)) = length (heap w)"
  by (simp_all add: record_sample_def)

lemma record_sample_other: "b \<noteq> a \<Longrightarrow> heap (record_sample a s w) ! b = heap w ! b"
  by (simp add: record_sample_def)

lemma record_sample_samples:
  "a < length (heap w) \<Longrightarrow> samples (heap (record_sample a s w) ! a) = samples (heap w ! a) @ [s]"
  by (simp add: record_sample_def)

lemma record_sample_vectors [simp]:
  "summaries (heap (record_sample a s w) ! b) = summaries (heap w ! b)"
  "counters (heap (record_sample a s w) ! b) = counters (heap w ! b)"
  by (cases "b = a"; simp add: record_sample_def)+

lemma record_sample_GetOptionSet [simp]:
  "GetOptionSet g (record_sample a s w) c = GetOptionSet g w c"
  by (cases c) (simp_all add: GetOptionSet_def)

lemma record_sample_GetServerMetricsSet [simp]:
  "GetServerMetricsSet g (record_sample a s w) c = GetServerMetricsSet g w c"
  by (simp add: GetServerMetricsSet_def)

lemma record_sample_getValues [simp]:
  "getValues g (record_sample a s w) c = getValues g w c"
  by (simp add: getValues_def)

lemma record_sample_GetSummaryWithValues [simp]:
  "GetSummaryWithValues (record_sample a s w) b name vs = GetSummaryWithValues w b name vs"
  by (simp add: GetSummaryWithValues_def)

lemma record_sample_GetCounterWithValues [simp]:
  "GetCounterWithValues (record_sample a s w) b name vs = GetCounterWithValues w b name vs"
  by (simp add: GetCounterWithValues_def)

lemma GetSummaryWithValues_Some:
  "GetSummaryWithValues w a name vs = Some d \<Longrightarrow> d = Observer a name vs"
  by (auto simp: GetSummaryWithValues_def split: if_splits option.splits)

lemma GetCounterWithValues_Some:
  "GetCounterWithValues w a name vs = Some d \<Longrightarrow> d = Counter a name vs"
  by (auto simp: GetCounterWithValues_def split: if_splits option.splits)

lemma observed_fields [simp]:
  "optionsMap (observed b a s w) = optionsMap w"
  "ctx (observed b a s w) = ctx w"
  "length (heap (observed b a s w)) = length (heap w)"
  "GetServerMetricsSet g (observed b a s w) c = GetServerMetricsSet g w c"
  "getValues g (observed b a s w) c = getValues g w c"
  "GetSummaryWithValues (observed b a s w) a' name vs = GetSummaryWithValues w a' name vs"
  "GetCounterWithValues (observed b a s w) a' name vs = GetCounterWithValues w a' name vs"
  by (simp_all add: observed_def)

lemma Observe_step:
  "(case GetSummaryWithValues w a name vs of Some d \<Rightarrow> Observe d e w' | None \<Rightarrow> w') =
   observed (GetSummaryWithValues w a name vs \<noteq> None) a (Observed name vs e) w'"
proof (cases "GetSummaryWithValues w a name vs")
  case None
  then show ?thesis by (simp add: observed_def)
next
  case (Some d)
  then have "d = Observer a name vs" by (rule GetSummaryWithValues_Some)
  with Some show ?thesis by (simp add: observed_def)
qed

lemma Inc_step:
  "(case GetCounterWithValues w a name vs of Some d \<Rightarrow> Inc d w' | None \<Rightarrow> w') =
   observed (GetCounterWithValues w a name vs \<noteq> None) a (Incremented name vs) w'"
proof (cases "GetCounterWithValues w a name vs")
  case None
  then show ?thesis by (simp add: observed_def)
next
  case (Some d)
  then have "d = Counter a name vs" by (rule GetCounterWithValues_Some)
  with Some show ?thesis by (simp add: observed_def)
qed

lemma observe_all_None:
  "GetServerMetricsSet g w (Some (ctx w)) = None \<Longrightarrow> observe_all g elapsed w = w"
  by (simp add: observe_all_def GetServerDurationMetrics_def GetServerErrorMetrics_def
      GetServerResCodeMetrics_def Let_def)

lemma observe_all_Some:
  assumes "GetServerMetricsSet g w (Some (ctx w)) = Some a"
  shows "observe_all g elapsed w =
     observed (GetCounterWithValues w a ResCode (getValues g w (Some (ctx w))) \<noteq> None) a
       (Incremented ResCode (getValues g w (Some (ctx w))))
       (observed (Errors (ctx w) \<noteq> [] \<and>
                  GetCounterWithValues w a Errors_name (getValues g w (Some (ctx w))) \<noteq> None) a
          (Incremented Errors_name (getValues g w (Some (ctx w))))
          (observed (GetSummaryWithValues w a ElapsedNano (getValues g w (Some (ctx w))) \<noteq> None) a
             (Observed ElapsedNano (getValues g w (Some (ctx w))) elapsed) w))"
proof -
  let ?c = "Some (ctx w)"
  let ?vals = "getValues g w ?c"
  let ?w1 = "observed (GetSummaryWithValues w a ElapsedNano ?vals \<noteq> None) a
               (Observed ElapsedNano ?vals elapsed) w"
  let ?w2 = "observed (Errors (ctx w) \<noteq> [] \<and> GetCounterWithValues w a Errors_name ?vals \<noteq> None) a
               (Incremented Errors_name ?vals) ?w1"
  have s1: "(case GetServerDurationMetrics g w ?c of
               Some durationMetrics \<Rightarrow> Observe durationMetrics elapsed w | None \<Rightarrow> w) = ?w1"
    using assms by (simp add: GetServerDurationMetrics_def Observe_step)
  have s2: "(if length (Errors (ctx ?w1)) > 0
             then (case GetServerErrorMetrics g ?w1 ?c of
                     Some errorMetrics \<Rightarrow> Inc errorMetrics ?w1 | None \<Rightarrow> ?w1)
             else ?w1) = ?w2"
  proof (cases "Errors (ctx w) = []")
    case True
    then show ?thesis by (simp add: observed_def)
  next
    case False
    have "(case GetServerErrorMetrics g ?w1 ?c of
             Some errorMetrics \<Rightarrow> Inc errorMetrics ?w1 | None \<Rightarrow> ?w1) =
          observed (GetCounterWithValues ?w1 a Errors_name ?vals \<noteq> None) a
            (Incremented Errors_name ?vals) ?w1"
      using assms by (simp add: GetServerErrorMetrics_def Inc_step)
    with False show ?thesis by simp
  qed
  have s3: "(case GetServerResCodeMetrics g ?w2 ?c of
               Some resCodeMetrics \<Rightarrow> Inc resCodeMetrics ?w2 | None \<Rightarrow> ?w2) =
            observed (GetCounterWithValues w a ResCode ?vals \<noteq> None) a
              (Incremented ResCode ?vals) ?w2"
  proof -
    have "(case GetServerResCodeMetrics g ?w2 ?c of
             Some resCodeMetrics \<Rightarrow> Inc resCodeMetrics ?w2 | None \<Rightarrow> ?w2) =
          observed (GetCounterWithValues ?w2 a ResCode ?vals \<noteq> None) a
            (Incremented ResCode ?vals) ?w2"
      using assms by (simp add: GetServerResCodeMetrics_def Inc_step)
    then show ?thesis by simp
  qed
  show ?thesis
    unfolding observe_all_def Let_def s1 s2 s3 ..
qed

section \<open>What a construction changes\<close>

lemma newSet_world:
  "snd (newSet g opts w) =
     w\<lparr>heap := heap w @ [NewMetricsSet (AppName g) (EntryName (fst (newSet g opts w)))
                            (the (Registerer (fst (newSet g opts w))))]\<rparr>"
  by (simp add: newSet_def alloc_def Let_def)

lemma newSet_pointer: "MetricsSet (fst (newSet g opts w)) = Some (length (heap w))"
  by (simp add: newSet_def alloc_def Let_def)

lemma initMetrics_fields [simp]:
  "optionsMap (initMetrics s w) = optionsMap w"
  "ctx (initMetrics s w) = ctx w"
  "length (heap (initMetrics s w)) = length (heap w)"
  by (simp_all add: initMetrics_def split: option.splits)

lemma initMetrics_other:
  "MetricsSet s \<noteq> Some b \<Longrightarrow> heap (initMetrics s w) ! b = heap w ! b"
  by (auto simp: initMetrics_def split: option.splits)

lemma MetricsPromInterceptor_world:
  "snd (MetricsPromInterceptor g opts w) =
     (let set2 = fst (newSet g opts w); w1 = snd (newSet g opts w)
      in (case optionsMap w (EntryName set2) of
            None \<Rightarrow> initMetrics set2 (w1\<lparr>optionsMap := (optionsMap w)(EntryName set2 \<mapsto> set2)\<rparr>)
          | Some _ \<Rightarrow> w1))"
proof -
  have "optionsMap (snd (newSet g opts w)) = optionsMap w"
    by (subst newSet_world) simp
  then show ?thesis
    by (simp add: MetricsPromInterceptor_def Let_def split_beta split: option.splits)
qed

lemma MetricsPromInterceptor_keeps_entry:
  assumes "optionsMap w n = Some s"
  shows "optionsMap (snd (MetricsPromInterceptor g opts w)) n = Some s"
proof -
  have om: "optionsMap (snd (newSet g opts w)) = optionsMap w"
    by (subst newSet_world) simp
  show ?thesis
  proof (cases "optionsMap w (EntryName (fst (newSet g opts w)))")
    case None
    with assms have "n \<noteq> EntryName (fst (newSet g opts w))" by auto
    with None assms show ?thesis
      by (simp add: MetricsPromInterceptor_world Let_def)
  next
    case (Some t)
    with assms om show ?thesis
      by (simp add: MetricsPromInterceptor_world Let_def)
  qed
qed

lemma MetricsPromInterceptor_heap:
  "length (heap w) < length (heap (snd (MetricsPromInterceptor g opts w)))"
  "a < length (heap w) \<Longrightarrow> heap (snd (MetricsPromInterceptor g opts w)) ! a = heap w ! a"
proof -
  have hp: "heap (snd (newSet g opts w)) = heap w @
       [NewMetricsSet (AppName g) (EntryName (fst (newSet g opts w)))
          (the (Registerer (fst (newSet g opts w))))]"
    by (subst newSet_world) simp
  show "length (heap w) < length (heap (snd (MetricsPromInterceptor g opts w)))"
    by (simp add: MetricsPromInterceptor_world Let_def hp split: option.splits)
  assume a: "a < length (heap w)"
  then have "MetricsSet (fst (newSet g opts w)) \<noteq> Some a"
    by (simp add: newSet_pointer)
  with a show "heap (snd (MetricsPromInterceptor g opts w)) ! a = heap w ! a"
    by (simp add: MetricsPromInterceptor_world Let_def hp initMetrics_other nth_append
        split: option.splits)
qed

lemma constructions_keep_entry:
  "optionsMap w n = Some s \<Longrightarrow> optionsMap (constructions g optss w) n = Some s"
  unfolding constructions_def
  by (induction optss arbitrary: w) (simp_all add: MetricsPromInterceptor_keeps_entry)

lemma constructions_heap:
  "a < length (heap w) \<Longrightarrow>
     a < length (heap (constructions g optss w)) \<and> heap (constructions g optss w) ! a = heap w ! a"
  unfolding constructions_def
proof (induction optss arbitrary: w)
  case Nil
  then show ?case by simp
next
  case (Cons opts optss)
  let ?w = "snd (MetricsPromInterceptor g opts w)"
  from Cons.prems have "a < length (heap ?w)"
    using MetricsPromInterceptor_heap(1) [of w g opts] by simp
  from Cons.IH [OF this] Cons.prems show ?case
    by (simp add: MetricsPromInterceptor_heap(2))
qed

section \<open>The handler of the metrics interceptor\<close>

lemma observed_other: "b \<noteq> a \<Longrightarrow> heap (observed c a s w) ! b = heap w ! b"
  by (simp add: observed_def record_sample_other)

lemma observed_samples:
  "a < length (heap w) \<Longrightarrow>
     samples (heap (observed c a s w) ! a) = samples (heap w ! a) @ (if c then [s] else [])"
  by (simp add: observed_def record_sample_samples)

lemma handler_Returned:
  assumes "next w = Returned w1" and "Request (ctx w1) = Some r"
  shows "handler g next w =
     Returned (if excluded (RequestURI r) then w1 else observe_all g (now w1 - now w) w1)"
  using assms by (simp add: handler_def Let_def)

text \<open>
  C5: when the request URI, read after the next stage has returned, starts with
  \<^verbatim>\<open>/rk/v1/assets\<close>, \<^verbatim>\<open>/rk/v1/tv\<close> or \<^verbatim>\<open>/sw/\<close>, the handler returns exactly the state
  the next stage left: no latency sample, no error increment and no response-code increment
  reach any metrics set.
\<close>

theorem handler_skips_internal_paths:
  assumes "next w = Returned w1" and "Request (ctx w1) = Some r"
    and "HasPrefix (RequestURI r) ''/rk/v1/assets'' \<or> HasPrefix (RequestURI r) ''/rk/v1/tv'' \<or>
         HasPrefix (RequestURI r) ''/sw/''"
  shows "handler g next w = Returned w1"
  using assms by (auto simp: handler_Returned excluded_def)

text \<open>
  C7: for a request URI with none of the three prefixes the handler returns (it does not
  panic) and leaves registry and context as they are. When no metrics set is found for the
  context the state is unchanged. Otherwise only the metrics set found is changed, and it
  receives, in this order: the elapsed time \<open>now w1 - now w\<close> on the latency summary when
  that accessor is non-nil, one increment of the error counter when the context has
  recorded an error and that accessor is non-nil, and one increment of the response-code
  counter when that accessor is non-nil. All three carry the label values of \<open>getValues\<close>.
\<close>

theorem handler_observes:
  assumes "next w = Returned w1" and "Request (ctx w1) = Some r"
    and "\<not> HasPrefix (RequestURI r) ''/rk/v1/assets''"
    and "\<not> HasPrefix (RequestURI r) ''/rk/v1/tv''"
    and "\<not> HasPrefix (RequestURI r) ''/sw/''"
  shows "case handler g next w of
           Panicked p w' \<Rightarrow> False
         | Returned w' \<Rightarrow>
             optionsMap w' = optionsMap w1 \<and> ctx w' = ctx w1 \<and>
             length (heap w') = length (heap w1) \<and>
             (case GetServerMetricsSet g w1 (Some (ctx w1)) of
                None \<Rightarrow> w' = w1
              | Some a \<Rightarrow>
                  (\<forall>b. b \<noteq> a \<longrightarrow> heap w' ! b = heap w1 ! b) \<and>
                  (a < length (heap w1) \<longrightarrow>
                     samples (heap w' ! a) =
                       samples (heap w1 ! a) @
                       (if GetServerDurationMetrics g w1 (Some (ctx w1)) \<noteq> None
                        then [Observed ElapsedNano (getValues g w1 (Some (ctx w1))) (now w1 - now w)]
                        else []) @
                       (if Errors (ctx w1) \<noteq> [] \<and> GetServerErrorMetrics g w1 (Some (ctx w1)) \<noteq> None
                        then [Incremented Errors_name (getValues g w1 (Some (ctx w1)))]
                        else []) @
                       (if GetServerResCodeMetrics g w1 (Some (ctx w1)) \<noteq> None
                        then [Incremented ResCode (getValues g w1 (Some (ctx w1)))]
                        else [])))"
proof -
  have h: "handler g next w = Returned (observe_all g (now w1 - now w) w1)"
    using assms by (simp add: handler_Returned excluded_def)
  show ?thesis
  proof (cases "GetServerMetricsSet g w1 (Some (ctx w1))")
    case None
    then show ?thesis by (simp add: h observe_all_None)
  next
    case (Some a)
    have acc: "GetServerDurationMetrics g w1 (Some (ctx w1)) =
                 GetSummaryWithValues w1 a ElapsedNano (getValues g w1 (Some (ctx w1)))"
      "GetServerErrorMetrics g w1 (Some (ctx w1)) =
                 GetCounterWithValues w1 a Errors_name (getValues g w1 (Some (ctx w1)))"
      "GetServerResCodeMetrics g w1 (Some (ctx w1)) =
                 GetCounterWithValues w1 a ResCode (getValues g w1 (Some (ctx w1)))"
      using Some
      by (simp_all add: GetServerDurationMetrics_def GetServerErrorMetrics_def
          GetServerResCodeMetrics_def)
    show ?thesis
      unfolding h acc
      by (simp add: Some observe_all_Some [OF Some] observed_other observed_samples)
  qed
qed

lemma Itoa_200: "Itoa 200 = ''200''"
  by (simp add: Itoa_def FormatUint.simps digit_def)

lemma demo_service_eq:
  "demo_service =
     \<lparr>optionsMap = [''svc'' \<mapsto> \<lparr>EntryName = ''svc'', EntryType = ''rest'', Registerer = Some 0,
                                 MetricsSet = Some 0\<rparr>],
      heap = [\<lparr>namespace = ''app'', subSystem = ''svc'', registerer = 0,
               summaries = [(''elapsedNano'', DefaultLabelKeys)],
               counters = [(''errors'', DefaultLabelKeys), (''resCode'', DefaultLabelKeys)],
               samples = []\<rparr>],
      ctx = demo_ctx, now = 0, effects = [], stack = ''goroutine 1''\<rparr>"
  by (simp add: demo_service_def MetricsPromInterceptor_def newSet_def alloc_def initMetrics_def
      demo_globals_def demo_world_def NewMetricsSet_def RegisterSummary_def RegisterCounter_def
      containsKey_def ElapsedNano_def Errors_name_def ResCode_def Let_def)

text \<open>
  The two theorems at requests to \<^verbatim>\<open>/sw/index.html\<close> and \<^verbatim>\<open>/v1/hello\<close> of the entry
  \<^verbatim>\<open>svc\<close>, 250 nanoseconds long and with one recorded error.
\<close>

theorem handler_skips_internal_paths_witness:
  "handler demo_globals demo_next (demo_service\<lparr>ctx := demo_request ''/sw/index.html'' [''boom'']\<rparr>) =
     Returned (demo_service\<lparr>ctx := demo_request ''/sw/index.html'' [''boom''], now := 250\<rparr>)
   \<and> samples (heap (demo_service\<lparr>ctx := demo_request ''/sw/index.html'' [''boom''], now := 250\<rparr>) ! 0) = []"
  using handler_skips_internal_paths
    [of demo_next "demo_service\<lparr>ctx := demo_request ''/sw/index.html'' [''boom'']\<rparr>"
        "demo_service\<lparr>ctx := demo_request ''/sw/index.html'' [''boom''], now := 250\<rparr>"
        "\<lparr>Method = ''GET'', URL = Some \<lparr>Path = ''/sw/index.html''\<rparr>, RequestURI = ''/sw/index.html''\<rparr>"
        demo_globals]
  by (simp add: demo_next_def demo_service_eq demo_request_def HasPrefix_def)

theorem handler_observes_witness:
  "case handler demo_globals demo_next (demo_service\<lparr>ctx := demo_request ''/v1/hello'' [''boom'']\<rparr>) of
     Panicked p w' \<Rightarrow> False
   | Returned w' \<Rightarrow>
       samples (heap w' ! 0) =
         [Observed ''elapsedNano''
            [''svc'', ''rest'', ''*'', ''*'', ''*'', ''*'', ''host'', ''v1'', ''app'', ''GET'',
             ''/v1/hello'', ''ginServer'', ''200''] 250,
          Incremented ''errors''
            [''svc'', ''rest'', ''*'', ''*'', ''*'', ''*'', ''host'', ''v1'', ''app'', ''GET'',
             ''/v1/hello'', ''ginServer'', ''200''],
          Incremented ''resCode''
            [''svc'', ''rest'', ''*'', ''*'', ''*'', ''*'', ''host'', ''v1'', ''app'', ''GET'',
             ''/v1/hello'', ''ginServer'', ''200'']]"
  using handler_observes
    [of demo_next "demo_service\<lparr>ctx := demo_request ''/v1/hello'' [''boom'']\<rparr>"
        "demo_service\<lparr>ctx := demo_request ''/v1/hello'' [''boom''], now := 250\<rparr>"
        "\<lparr>Method = ''GET'', URL = Some \<lparr>Path = ''/v1/hello''\<rparr>, RequestURI = ''/v1/hello''\<rparr>"
        demo_globals]
  by (simp add: demo_next_def demo_service_eq demo_request_def HasPrefix_def
      GetServerMetricsSet_def GetOptionSet_def GetString_def demo_globals_def
      GetServerDurationMetrics_def GetServerErrorMetrics_def GetServerResCodeMetrics_def
      GetSummaryWithValues_def GetCounterWithValues_def getValues_def DefaultLabelKeys_def
      ElapsedNano_def Errors_name_def ResCode_def Itoa_200 split: outcome.splits)

section \<open>Observations resolve through the registry\<close>

lemma handler_touches_registry_set_only:
  assumes "next w = Returned w1" and "Request (ctx w1) = Some r"
  shows "case handler g next w of
           Panicked p w' \<Rightarrow> False
         | Returned w' \<Rightarrow>
            (case optionsMap w1 (GetString (ctx w1) (RkEntryNameKey g)) of
               None \<Rightarrow> w' = w1
             | Some s \<Rightarrow> \<forall>b. MetricsSet s \<noteq> Some b \<longrightarrow> heap w' ! b = heap w1 ! b)"
proof (cases "excluded (RequestURI r)")
  case True
  with assms show ?thesis
    by (simp add: handler_Returned split: option.splits)
next
  case False
  with assms have h: "handler g next w = Returned (observe_all g (now w1 - now w) w1)"
    by (simp add: handler_Returned)
  show ?thesis
  proof (cases "GetServerMetricsSet g w1 (Some (ctx w1))")
    case None
    then show ?thesis
      by (simp add: h observe_all_None split: option.splits)
  next
    case (Some a)
    then show ?thesis
      by (auto simp: h observe_all_Some [OF Some] observed_other GetServerMetricsSet_def
          GetOptionSet_def split: option.splits)
  qed
qed

text \<open>
  C10: the handler the factory returns is the same function whatever the options, so it
  holds nothing of the option set built at construction. Any number of further constructions
  leaves a registry entry that is present, and every metrics set allocated before, as it
  is. A request changes at most the metrics set of the registry entry found under the entry
  name of its context, and changes nothing when the registry has no such entry.
\<close>

theorem observations_go_through_registry:
  "fst (MetricsPromInterceptor g opts w0) = handler g \<and>
   (optionsMap w0 n = Some s \<longrightarrow> optionsMap (constructions g optss w0) n = Some s) \<and>
   (\<forall>a. a < length (heap w0) \<longrightarrow> heap (constructions g optss w0) ! a = heap w0 ! a) \<and>
   (next w = Returned w1 \<and> Request (ctx w1) = Some r \<longrightarrow>
      (case handler g next w of
         Panicked p w' \<Rightarrow> False
       | Returned w' \<Rightarrow>
          (case optionsMap w1 (GetString (ctx w1) (RkEntryNameKey g)) of
             None \<Rightarrow> w' = w1
           | Some s \<Rightarrow> \<forall>b. MetricsSet s \<noteq> Some b \<longrightarrow> heap w' ! b = heap w1 ! b)))"
proof (intro conjI impI allI)
  show "fst (MetricsPromInterceptor g opts w0) = handler g"
    by (simp add: MetricsPromInterceptor_def Let_def split_beta)
next
  assume "optionsMap w0 n = Some s"
  then show "optionsMap (constructions g optss w0) n = Some s"
    by (rule constructions_keep_entry)
next
  fix a assume "a < length (heap w0)"
  then show "heap (constructions g optss w0) ! a = heap w0 ! a"
    by (simp add: constructions_heap)
next
  assume "next w = Returned w1 \<and> Request (ctx w1) = Some r"
  then show "case handler g next w of
         Panicked p w' \<Rightarrow> False
       | Returned w' \<Rightarrow>
          (case optionsMap w1 (GetString (ctx w1) (RkEntryNameKey g)) of
             None \<Rightarrow> w' = w1
           | Some s \<Rightarrow> \<forall>b. MetricsSet s \<noteq> Some b \<longrightarrow> heap w' ! b = heap w1 ! b)"
    using handler_touches_registry_set_only [of "next" w w1 r g] by simp
qed

theorem observations_go_through_registry_witness:
  "optionsMap demo_service2 ''svc'' = optionsMap demo_service ''svc'' \<and>
   heap demo_service2 ! 0 = heap demo_service ! 0 \<and>
   (case handler demo_globals demo_next (demo_service2\<lparr>ctx := demo_request ''/v1/hello'' []\<rparr>) of
      Panicked p w' \<Rightarrow> False
    | Returned w' \<Rightarrow> heap w' ! 1 = heap demo_service2 ! 1 \<and> heap w' ! 2 = heap demo_service2 ! 2)"
proof -
  let ?s = "\<lparr>EntryName = ''svc'', EntryType = ''rest'', Registerer = Some 0, MetricsSet = Some 0\<rparr>"
  let ?w = "demo_service2\<lparr>ctx := demo_request ''/v1/hello'' []\<rparr>"
  let ?w1 = "?w\<lparr>now := now ?w + 250\<rparr>"
  let ?r = "\<lparr>Method = ''GET'', URL = Some \<lparr>Path = ''/v1/hello''\<rparr>, RequestURI = ''/v1/hello''\<rparr>"
  note T = observations_go_through_registry
    [of demo_globals "[]" demo_service "''svc''" ?s
        "[[WithEntryNameAndType ''svc'' ''other'', WithRegisterer (Some 7)],
          [WithEntryNameAndType ''svc'' ''third'']]"
        demo_next ?w ?w1 ?r]
  have first: "optionsMap demo_service ''svc'' = Some ?s"
    by (simp add: demo_service_eq)
  with T have kept: "optionsMap demo_service2 ''svc'' = Some ?s"
    by (simp add: demo_service2_def)
  have "0 < length (heap demo_service)"
    by (simp add: demo_service_eq)
  with T have cell: "heap demo_service2 ! 0 = heap demo_service ! 0"
    by (simp add: demo_service2_def)
  have "demo_next ?w = Returned ?w1 \<and> Request (ctx ?w1) = Some ?r"
    by (simp add: demo_next_def demo_request_def)
  with T have "case handler demo_globals demo_next ?w of
         Panicked p w' \<Rightarrow> False
       | Returned w' \<Rightarrow>
          (case optionsMap ?w1 (GetString (ctx ?w1) (RkEntryNameKey demo_globals)) of
             None \<Rightarrow> w' = ?w1
           | Some s \<Rightarrow> \<forall>b. MetricsSet s \<noteq> Some b \<longrightarrow> heap w' ! b = heap ?w1 ! b)"
    by blast
  moreover have "optionsMap ?w1 (GetString (ctx ?w1) (RkEntryNameKey demo_globals)) = Some ?s"
    using kept by (simp add: GetString_def demo_request_def demo_globals_def)
  ultimately show ?thesis
    using first kept cell by (simp split: outcome.splits)
qed

section \<open>Defaults of the tracing option set\<close>

lemma applyOption_trace_not_explicit:
  "\<not> explicit x \<Longrightarrow>
     Exporter (applyOption_trace x s) = Exporter s \<and>
     Processor (applyOption_trace x s) = Processor s \<and>
     Provider (applyOption_trace x s) = Provider s \<and>
     Propagator (applyOption_trace x s) = Propagator s"
  by (cases x) simp_all

lemma fold_applyOption_trace_not_explicit:
  "\<forall>x\<in>set opts. \<not> explicit x \<Longrightarrow>
     Exporter (fold applyOption_trace opts s) = Exporter s \<and>
     Processor (fold applyOption_trace opts s) = Processor s \<and>
     Provider (fold applyOption_trace opts s) = Provider s \<and>
     Propagator (fold applyOption_trace opts s) = Propagator s"
  by (induction opts arbitrary: s) (simp_all add: applyOption_trace_not_explicit)

text \<open>
  C9: when no option supplies an exporter, a processor, a provider or a propagator, the
  option set built has the no-op exporter, a batch span processor on that exporter, a
  provider with the always-sample sampler, that processor and the four resource attributes
  \<^verbatim>\<open>service.name\<close>, \<^verbatim>\<open>service.version\<close>, \<^verbatim>\<open>service.entryName\<close> and \<^verbatim>\<open>service.entryType\<close>,
  a tracer obtained from that provider under the entry name, and the composite of the
  trace-context and baggage propagators.
\<close>

theorem newOptionSet_defaults:
  assumes "\<forall>x\<in>set opts. \<not> explicit x"
  shows "Exporter (fst (newOptionSet g opts om)) = Some NoopExporter \<and>
         Processor (fst (newOptionSet g opts om)) = Some (NewBatchSpanProcessor NoopExporter) \<and>
         Provider (fst (newOptionSet g opts om)) =
           Some (NewTracerProvider
                  [WithSampler AlwaysSample,
                   WithSpanProcessor_sdk (NewBatchSpanProcessor NoopExporter),
                   WithResource
                     [(''service.name'', AppName g),
                      (''service.version'', Version g),
                      (''service.entryName'', EntryName_trace (fst (newOptionSet g opts om))),
                      (''service.entryType'', EntryType_trace (fst (newOptionSet g opts om)))]]) \<and>
         (\<exists>p. Provider (fst (newOptionSet g opts om)) = Some p \<and>
              Tracer (fst (newOptionSet g opts om)) =
                Some (ProviderTracer p (EntryName_trace (fst (newOptionSet g opts om))) (SemVersion g))) \<and>
         Propagator (fst (newOptionSet g opts om)) =
           Some (NewCompositeTextMapPropagator [TraceContext, Baggage])"
  using fold_applyOption_trace_not_explicit [OF assms]
  by (simp add: newOptionSet_def Let_def CreateNoopExporter_def)

theorem newOptionSet_defaults_witness:
  "Exporter (fst (newOptionSet demo_globals [WithEntryNameAndType_trace ''svc'' ''rest'', WithExporter None] Map.empty))
     = Some NoopExporter \<and>
   Propagator (fst (newOptionSet demo_globals [WithEntryNameAndType_trace ''svc'' ''rest'', WithExporter None] Map.empty))
     = Some (NewCompositeTextMapPropagator [TraceContext, Baggage]) \<and>
   Provider (fst (newOptionSet demo_globals [WithEntryNameAndType_trace ''svc'' ''rest'', WithExporter None] Map.empty)) =
           Some (NewTracerProvider
                  [WithSampler AlwaysSample,
                   WithSpanProcessor_sdk (NewBatchSpanProcessor NoopExporter),
                   WithResource
                     [(''service.name'', ''app''), (''service.version'', ''v1''),
                      (''service.entryName'', ''svc''), (''service.entryType'', ''rest'')]])"
  using newOptionSet_defaults
    [of "[WithEntryNameAndType_trace ''svc'' ''rest'', WithExporter None]" demo_globals Map.empty]
  by (simp add: newOptionSet_def Let_def demo_globals_def)

section \<open>Registering twice under one entry name\<close>

lemma newOptionSet_keeps_entry:
  "om n = Some s \<Longrightarrow> snd (newOptionSet g opts om) n = Some s"
  by (auto simp: newOptionSet_def Let_def split: option.splits)

lemma newOptionSet_returns_fresh:
  "fst (newOptionSet g opts om) = fst (newOptionSet g opts Map.empty)"
  by (simp add: newOptionSet_def Let_def)

lemma newOptionSet_registers:
  "om (EntryName_trace (fst (newOptionSet g opts om))) = None \<Longrightarrow>
     snd (newOptionSet g opts om) (EntryName_trace (fst (newOptionSet g opts om))) =
       Some (fst (newOptionSet g opts om))"
  by (simp add: newOptionSet_def Let_def)

text \<open>
  C1, as amended: a registry entry that is present is left unchanged by a further
  construction, in package rkgintrace and in package rkginmetrics, where the metrics sets
  allocated before are left unchanged as well. \<open>newOptionSet\<close> stores the set it
  built when its entry name is not registered yet, and what it returns does not depend on
  the registry: it is always the set built from the arguments of this call.
\<close>

theorem first_registration_wins:
  "(om n = Some s \<longrightarrow> snd (newOptionSet g opts om) n = Some s) \<and>
   (om (EntryName_trace (fst (newOptionSet g opts om))) = None \<longrightarrow>
      snd (newOptionSet g opts om) (EntryName_trace (fst (newOptionSet g opts om))) =
        Some (fst (newOptionSet g opts om))) \<and>
   fst (newOptionSet g opts om) = fst (newOptionSet g opts Map.empty) \<and>
   (optionsMap w m = Some t \<longrightarrow>
      optionsMap (snd (MetricsPromInterceptor g mopts w)) m = Some t) \<and>
   (\<forall>a. a < length (heap w) \<longrightarrow> heap (snd (MetricsPromInterceptor g mopts w)) ! a = heap w ! a)"
proof (intro conjI impI allI)
  show "fst (newOptionSet g opts om) = fst (newOptionSet g opts Map.empty)"
    by (rule newOptionSet_returns_fresh)
qed (simp_all add: newOptionSet_keeps_entry newOptionSet_registers
      MetricsPromInterceptor_keeps_entry MetricsPromInterceptor_heap(2))

text \<open>
  C1 as stated fails for \<open>newOptionSet\<close>: the second construction under the name
  \<^verbatim>\<open>svc\<close> returns a set with the entry type of the second call, not the one the
  registry holds.
\<close>

theorem second_newOptionSet_returns_new_set:
  "EntryName_trace (fst demo_second) = EntryName_trace (fst demo_first) \<and>
   snd demo_second ''svc'' = Some (fst demo_first) \<and>
   fst demo_second \<noteq> fst demo_first \<and>
   EntryType_trace (fst demo_second) = ''second''"
  by (simp add: demo_second_def demo_first_def newOptionSet_def Let_def demo_globals_def)

theorem first_registration_wins_witness:
  "snd demo_second ''svc'' = Some (fst demo_first) \<and>
   optionsMap (snd (MetricsPromInterceptor demo_globals
       [WithEntryNameAndType ''svc'' ''other'', WithRegisterer (Some 7)] demo_service)) ''svc'' =
     optionsMap demo_service ''svc'' \<and>
   heap (snd (MetricsPromInterceptor demo_globals
       [WithEntryNameAndType ''svc'' ''other'', WithRegisterer (Some 7)] demo_service)) ! 0 =
     heap demo_service ! 0"
proof -
  let ?s = "\<lparr>EntryName = ''svc'', EntryType = ''rest'', Registerer = Some 0, MetricsSet = Some 0\<rparr>"
  note T = first_registration_wins
      [of "snd demo_first" "''svc''" "fst demo_first" demo_globals
          "[WithEntryNameAndType_trace ''svc'' ''second'']" demo_service "''svc''" ?s
          "[WithEntryNameAndType ''svc'' ''other'', WithRegisterer (Some 7)]"]
  have reg: "snd demo_first ''svc'' = Some (fst demo_first)"
    by (simp add: demo_first_def newOptionSet_def Let_def demo_globals_def)
  have first: "optionsMap demo_service ''svc'' = Some ?s" "0 < length (heap demo_service)"
    by (simp_all add: demo_service_eq)
  from T reg first show ?thesis
    by (simp add: demo_second_def)
qed

lemma MetricsPromInterceptor_registers_instruments:
  assumes "optionsMap w (EntryName (fst (newSet g opts w))) = None"
  shows "optionsMap (snd (MetricsPromInterceptor g opts w)) (EntryName (fst (newSet g opts w))) =
           Some (fst (newSet g opts w)) \<and>
         MetricsSet (fst (newSet g opts w)) = Some (length (heap w)) \<and>
         summaries (heap (snd (MetricsPromInterceptor g opts w)) ! length (heap w)) =
           [(ElapsedNano, DefaultLabelKeys)] \<and>
         counters (heap (snd (MetricsPromInterceptor g opts w)) ! length (heap w)) =
           [(Errors_name, DefaultLabelKeys), (ResCode, DefaultLabelKeys)] \<and>
         samples (heap (snd (MetricsPromInterceptor g opts w)) ! length (heap w)) = []"
proof -
  have hp: "heap (snd (newSet g opts w)) = heap w @
       [NewMetricsSet (AppName g) (EntryName (fst (newSet g opts w)))
          (the (Registerer (fst (newSet g opts w))))]"
    by (subst newSet_world) simp
  show ?thesis
    using assms
    by (simp add: MetricsPromInterceptor_world Let_def newSet_pointer hp initMetrics_def
        NewMetricsSet_def RegisterSummary_def RegisterCounter_def containsKey_def
        ElapsedNano_def Errors_name_def ResCode_def)
qed

section \<open>The fallback entry name\<close>

lemma newSet_name_not_empty:
  assumes "RkEntryNameValue g \<noteq> []"
  shows "EntryName (fst (newSet g opts w)) \<noteq> []"
  using assms by (simp add: newSet_def alloc_def Let_def)

lemma MetricsPromInterceptor_no_empty_key:
  assumes "RkEntryNameValue g \<noteq> []" and "optionsMap w [] = None"
  shows "optionsMap (snd (MetricsPromInterceptor g opts w)) [] = None"
proof -
  have "EntryName (fst (newSet g opts w)) \<noteq> []"
    using assms(1) by (rule newSet_name_not_empty)
  with assms(2) show ?thesis
    by (auto simp: MetricsPromInterceptor_world Let_def newSet_world [of g opts w]
        split: option.splits)
qed

text \<open>
  C8: the tracing option \<open>WithEntryNameAndType_trace\<close> with an empty name makes
  \<open>newOptionSet\<close> register its set under the empty string; the default name
  \<^verbatim>\<open>gin\<close> is not used. In package rkginmetrics the key is never empty, by the two
  lemmas above.
\<close>

theorem newOptionSet_registers_empty_name:
  "EntryName_trace (fst (newOptionSet demo_globals [WithEntryNameAndType_trace [] ''rest''] Map.empty)) = [] \<and>
   snd (newOptionSet demo_globals [WithEntryNameAndType_trace [] ''rest''] Map.empty) [] =
     Some (fst (newOptionSet demo_globals [WithEntryNameAndType_trace [] ''rest''] Map.empty)) \<and>
   RpcEntryNameValue demo_globals = ''gin'' \<and>
   snd (newOptionSet demo_globals [WithEntryNameAndType_trace [] ''rest''] Map.empty) ''gin'' = None"
  by (simp add: newOptionSet_def Let_def demo_globals_def)

section \<open>The request-context getters\<close>

text \<open>
  C3 as stated fails for the propagator: with a nil context and with a context that holds
  no propagator, the getter returns nil.
\<close>

theorem propagator_getter_returns_nil:
  "GetTracerPropagator demo_globals None = None \<and>
   GetTracerPropagator demo_globals (Some demo_ctx) = None"
  by (simp add: GetTracerPropagator_def demo_ctx_def)

text \<open>
  C3, as amended: with a nil context, and with a context in which the key (for the request
  and trace ids: the writer or its header) is absent, the getters return the no-op event,
  the no-op logger, a non-nil no-op span, tracer and tracer provider, nil for the
  propagator, and the empty string for entry name, request id and trace id.
\<close>

theorem getters_default:
  "GetEvent g None = NoopEvent \<and> GetLogger g None = NoopLogger \<and>
   GetTraceSpan g None = Some NoopSpan \<and> GetTracer g None = Some NoopTracer \<and>
   GetTracerProvider g None = Some NoopTracerProvider \<and> GetTracerPropagator g None = None \<and>
   GetEntryName g None = [] \<and> GetRequestId g None = [] \<and> GetTraceId g None = [] \<and>
   (Keys cx (RpcEventKey g) = None \<longrightarrow> GetEvent g (Some cx) = NoopEvent) \<and>
   (Keys cx (RpcLoggerKey g) = None \<longrightarrow> GetLogger g (Some cx) = NoopLogger) \<and>
   (Keys cx (RpcSpanKey g) = None \<longrightarrow> GetTraceSpan g (Some cx) = Some NoopSpan) \<and>
   (Keys cx (RpcTracerKey g) = None \<longrightarrow> GetTracer g (Some cx) = Some NoopTracer) \<and>
   (Keys cx (RpcTracerProviderKey g) = None \<longrightarrow>
      GetTracerProvider g (Some cx) = Some NoopTracerProvider) \<and>
   (Keys cx (RpcPropagatorKey g) = None \<longrightarrow> GetTracerPropagator g (Some cx) = None) \<and>
   (Keys cx (RpcEntryNameKey g) = None \<longrightarrow> GetEntryName g (Some cx) = []) \<and>
   ((case Writer cx of None \<Rightarrow> True | Some wr \<Rightarrow> Header wr (RequestIdKey g) = None) \<longrightarrow>
      GetRequestId g (Some cx) = []) \<and>
   ((case Writer cx of None \<Rightarrow> True | Some wr \<Rightarrow> Header wr (TraceIdKey g) = None) \<longrightarrow>
      GetTraceId g (Some cx) = [])"
  by (simp add: GetEvent_def GetLogger_def GetTraceSpan_def GetTracer_def GetTracerProvider_def
      GetTracerPropagator_def GetEntryName_def GetRequestId_def GetTraceId_def GetString_def
      HeaderGet_def split: option.splits)

theorem getters_default_witness:
  "GetEvent demo_globals (Some demo_ctx) = NoopEvent \<and>
   GetLogger demo_globals (Some demo_ctx) = NoopLogger \<and>
   GetTraceSpan demo_globals (Some demo_ctx) = Some NoopSpan \<and>
   GetTracer demo_globals (Some demo_ctx) = Some NoopTracer \<and>
   GetTracerProvider demo_globals (Some demo_ctx) = Some NoopTracerProvider \<and>
   GetTracerPropagator demo_globals (Some demo_ctx) = None \<and>
   GetEntryName demo_globals (Some demo_ctx) = [] \<and>
   GetRequestId demo_globals (Some demo_ctx) = [] \<and>
   GetTraceId demo_globals (Some demo_ctx) = []"
  using getters_default [of demo_globals demo_ctx]
  by (simp add: demo_ctx_def)

section \<open>Panic recovery\<close>

text \<open>
  The three cases of the classification, and what the interceptor does when the classified
  response is not the nil pointer: it sets the counter, adds the error, logs, writes the
  response with status 500 and returns.
\<close>

lemma classify_cases:
  "classify (ErrorRespPointer se) = se"
  "classify (ErrorValue re) = Some (FromError re)"
  "classify (AnyValue v) = Some (New [WithMessage v])"
  by (simp_all add: classify_def)

lemma recovery_writes_response:
  assumes "classify recv = Some res"
  shows "recovery g recv w =
     Returned (w\<lparr>effects := effects w @
        [SetCounter (GetEvent g (Some (ctx w))) ''panic'' 1,
         AddErr (GetEvent g (Some (ctx w))) (Err res),
         LogError (GetLogger g (Some (ctx w))) (''panic occurs:'' @ [CHR 0x0A] @ stack w) (Err res),
         JSON 500 res]\<rparr>)"
  using assms by (simp add: recovery_def perform_def Let_def)

lemma Interceptor_recovers:
  assumes "next w = Panicked recv w1" and "classify recv = Some res"
  shows "Interceptor g next w =
     Returned (w1\<lparr>effects := effects w1 @
        [SetCounter (GetEvent g (Some (ctx w1))) ''panic'' 1,
         AddErr (GetEvent g (Some (ctx w1))) (Err res),
         LogError (GetLogger g (Some (ctx w1))) (''panic occurs:'' @ [CHR 0x0A] @ stack w1) (Err res),
         JSON 500 res]\<rparr>)"
  using assms by (simp add: Interceptor_def recovery_writes_response)

lemma Interceptor_no_panic:
  "next w = Returned w1 \<Longrightarrow> Interceptor g next w = Returned w1"
  by (simp add: Interceptor_def)

text \<open>
  C2: when the next stage panics with the nil pointer of type \<^verbatim>\<open>*rkerror.ErrorResp\<close>,
  the interceptor does not return: after setting the counter it panics with a nil pointer
  dereference, and no response is written.
\<close>

theorem Interceptor_panics_on_nil_ErrorResp:
  "Interceptor demo_globals (\<lambda>w. Panicked (ErrorRespPointer None) w) demo_world =
     Panicked (ErrorValue (RuntimeError ''invalid memory address or nil pointer dereference''))
       (demo_world\<lparr>effects := [SetCounter NoopEvent ''panic'' 1]\<rparr>)"
  by (simp add: Interceptor_def recovery_def classify_def perform_def nilDereference_def
      GetEvent_def demo_world_def demo_ctx_def Let_def)

text \<open>
  C6: for the nil pointer of type \<^verbatim>\<open>*rkerror.ErrorResp\<close> the recovery sets the panic
  counter on the event and nothing more: no error is added to the event, nothing is
  logged and no response is written.
\<close>

theorem recovery_stops_after_counter_on_nil_ErrorResp:
  "recovery g (ErrorRespPointer None) w =
     Panicked nilDereference
       (w\<lparr>effects := effects w @ [SetCounter (GetEvent g (Some (ctx w))) ''panic'' 1]\<rparr>)"
  by (simp add: recovery_def classify_def perform_def Let_def)

end
